theory Spec2Isabelle
  imports Main "HOL-Library.Word"
begin

section \<open>The virtual-memory simulator of pa3.c\<close>

text \<open>
  A shallow embedding of \<^verbatim>\<open>src/pa3.c\<close>: the translation cache, the frame allocator
  and deallocator, the page-fault handler and the switch/fork controller.

  The headers \<^verbatim>\<open>types.h\<close>, \<^verbatim>\<open>list_head.h\<close> and \<^verbatim>\<open>vm.h\<close> are not part of the sources,
  so the three macros the loops of pa3.c are bounded by are parameters of every
  operation. The arrays \<^verbatim>\<open>tlb\<close>, \<^verbatim>\<open>mapcounts\<close>, \<^verbatim>\<open>outer_ptes\<close> and \<^verbatim>\<open>ptes\<close> are functions
  from the index to the element: pa3.c declares \<^verbatim>\<open>mapcounts[]\<close> without a bound and
  takes the others from vm.h, and it never tests an index against a bound, so the
  embedding has no out-of-range branch either.
\<close>

record config =
  NR_PTES_PER_PAGE :: nat
  NR_PAGEFRAMES :: nat
  NR_TLB_ENTRIES :: nat

subsection \<open>Data\<close>

text \<open>
  \<^verbatim>\<open>struct tlb_entry\<close>; its fields carry the prefix \<open>tlb_\<close> because \<open>valid\<close> and \<open>pfn\<close>
  are fields of \<^verbatim>\<open>struct pte\<close> as well.
\<close>

record tlb_entry =
  tlb_valid :: bool
  tlb_vpn :: nat
  tlb_pfn :: nat

text \<open>
  \<^verbatim>\<open>struct pte\<close>. The field \<^verbatim>\<open>private\<close> is called \<open>private_tag\<close>: \<open>private\<close> is a keyword
  of Isabelle. pa3.c stores 1 there for a page requested read-only, 3 for a page
  requested for writing, and 0 on deallocation. Page and frame numbers are only
  divided, compared and used as indices, so they are natural numbers.
\<close>

record pte =
  valid :: bool
  writable :: bool
  pfn :: nat
  private_tag :: nat

type_synonym pte_directory = "nat \<Rightarrow> pte"

text \<open>
  \<^verbatim>\<open>struct pagetable\<close>: \<^verbatim>\<open>outer_ptes[i]\<close> is a pointer to a directory, \<open>None\<close> when it is
  \<^verbatim>\<open>NULL\<close>. A directory belongs to one page table: pa3.c obtains each one from
  \<^verbatim>\<open>malloc\<close> and never copies the pointer, so it is kept by value.
\<close>

record pagetable =
  outer_ptes :: "nat \<Rightarrow> pte_directory option"

text \<open>
  \<^verbatim>\<open>struct process\<close>. The list link is not a field here: the ready queue is the list
  of the addresses of its members, head first.
\<close>

record process =
  pid :: nat
  pagetable :: pagetable

text \<open>
  The globals of pa3.c. Process objects live in a store \<open>procs\<close> indexed by address;
  \<open>current\<close> is the address of the running process, \<open>processes\<close> the ready queue, and
  \<open>ptbr\<close> the address of the process whose page table the register points at
  (\<^verbatim>\<open>ptbr = &current->pagetable\<close> is \<open>ptbr := current\<close>). \<^verbatim>\<open>mapcounts\<close> holds
  \<^verbatim>\<open>unsigned int\<close>, a 32-bit word: \<^verbatim>\<open>mapcounts[pfn]--\<close> on 0 wraps around.
\<close>

record vm =
  procs :: "nat \<Rightarrow> process"
  current :: nat
  processes :: "nat list"
  ptbr :: nat
  tlb :: "nat \<Rightarrow> tlb_entry"
  mapcounts :: "nat \<Rightarrow> 32 word"

subsection \<open>Translation cache\<close>

text \<open>
  \<^verbatim>\<open>lookup_tlb\<close>: the scan over \<open>i = 0, ..., NR_TLB_ENTRIES - 1\<close> is a recursion over
  the list of indices. The result is \<open>Some pfn\<close> for \<^verbatim>\<open>true\<close> with \<^verbatim>\<open>*pfn\<close> written and
  \<open>None\<close> for \<^verbatim>\<open>false\<close>.
\<close>

fun lookup_scan :: "(nat \<Rightarrow> tlb_entry) \<Rightarrow> nat \<Rightarrow> nat list \<Rightarrow> nat option" where
  "lookup_scan t v [] = None"
| "lookup_scan t v (i # is) =
     (if \<not> tlb_valid (t i) then lookup_scan t v is
      else if tlb_vpn (t i) = v then Some (tlb_pfn (t i))
      else lookup_scan t v is)"

definition lookup_tlb :: "config \<Rightarrow> nat \<Rightarrow> vm \<Rightarrow> nat option" where
  "lookup_tlb cfg v s = lookup_scan (tlb s) v [0..<NR_TLB_ENTRIES cfg]"

text \<open>\<^verbatim>\<open>insert_tlb\<close>: the first invalid slot is filled; with none, nothing happens.\<close>

fun insert_scan :: "(nat \<Rightarrow> tlb_entry) \<Rightarrow> nat \<Rightarrow> nat \<Rightarrow> nat list \<Rightarrow> (nat \<Rightarrow> tlb_entry)" where
  "insert_scan t v p [] = t"
| "insert_scan t v p (i # is) =
     (if \<not> tlb_valid (t i)
      then t(i := (t i)\<lparr>tlb_valid := True, tlb_vpn := v, tlb_pfn := p\<rparr>)
      else insert_scan t v p is)"

definition insert_tlb :: "config \<Rightarrow> nat \<Rightarrow> nat \<Rightarrow> vm \<Rightarrow> vm" where
  "insert_tlb cfg v p s = s\<lparr>tlb := insert_scan (tlb s) v p [0..<NR_TLB_ENTRIES cfg]\<rparr>"

text \<open>
  \<^verbatim>\<open>free_tlb\<close> and \<^verbatim>\<open>flush_tlb\<close> visit every slot; \<open>free_loop n\<close> and \<open>flush_loop n\<close> are
  the state after the iterations \<open>i = 0, ..., n - 1\<close>.
\<close>

fun free_loop :: "nat \<Rightarrow> nat \<Rightarrow> (nat \<Rightarrow> tlb_entry) \<Rightarrow> (nat \<Rightarrow> tlb_entry)" where
  "free_loop v 0 t = t"
| "free_loop v (Suc i) t =
     (let t' = free_loop v i t
      in if tlb_valid (t' i) then
           (if tlb_vpn (t' i) = v then t'(i := (t' i)\<lparr>tlb_valid := False\<rparr>) else t')
         else t')"

definition free_tlb :: "config \<Rightarrow> nat \<Rightarrow> vm \<Rightarrow> vm" where
  "free_tlb cfg v s = s\<lparr>tlb := free_loop v (NR_TLB_ENTRIES cfg) (tlb s)\<rparr>"

fun flush_loop :: "nat \<Rightarrow> (nat \<Rightarrow> tlb_entry) \<Rightarrow> (nat \<Rightarrow> tlb_entry)" where
  "flush_loop 0 t = t"
| "flush_loop (Suc i) t =
     (let t' = flush_loop i t
      in if tlb_valid (t' i) then t'(i := (t' i)\<lparr>tlb_valid := False\<rparr>) else t')"

definition flush_tlb :: "config \<Rightarrow> vm \<Rightarrow> vm" where
  "flush_tlb cfg s = s\<lparr>tlb := flush_loop (NR_TLB_ENTRIES cfg) (tlb s)\<rparr>"

subsection \<open>Frame allocator and deallocator\<close>

text \<open>
  The two accessors below read and write \<^verbatim>\<open>current->pagetable.outer_ptes[i]\<close>.
\<close>

definition cur_dir :: "vm \<Rightarrow> nat \<Rightarrow> pte_directory option" where
  "cur_dir s i = outer_ptes (pagetable (procs s (current s))) i"

definition set_cur_dir :: "nat \<Rightarrow> pte_directory \<Rightarrow> vm \<Rightarrow> vm" where
  "set_cur_dir i d s =
     s\<lparr>procs := (procs s)(current s :=
          (procs s (current s))\<lparr>pagetable :=
             (pagetable (procs s (current s)))\<lparr>outer_ptes :=
                (outer_ptes (pagetable (procs s (current s))))(i \<mapsto> d)\<rparr>\<rparr>)\<rparr>"

text \<open>
  The frame-selection loop of \<^verbatim>\<open>alloc_page\<close>:
  \<^verbatim>\<open>for (i = 0; i < NR_PAGEFRAMES; i++) { pfn = i; if (mapcounts[i] == 0) break; }\<close>.
  The second argument is the value of \<^verbatim>\<open>pfn\<close> so far; it is the result when the
  indices run out, so a scan that meets no free frame ends on the last index.
\<close>

fun frame_scan :: "(nat \<Rightarrow> 32 word) \<Rightarrow> nat \<Rightarrow> nat list \<Rightarrow> nat" where
  "frame_scan mc p [] = p"
| "frame_scan mc p (i # is) = (if mc i = 0 then i else frame_scan mc i is)"

text \<open>
  \<^verbatim>\<open>alloc_page\<close>. \<^verbatim>\<open>malloc\<close> does not initialise what it returns, so the content of a
  newly allocated directory is the argument \<open>fresh\<close>. The local \<^verbatim>\<open>int pfn\<close> is not
  initialised either; the first iteration assigns it, and the start value 0 is the
  result only for \<open>NR_PAGEFRAMES = 0\<close>, where C leaves it indeterminate. It is
  called \<open>fr\<close> here, \<open>pfn\<close> being the field of the entry. The access flag \<open>rw\<close> is
  only compared with 1, the value of a read-only request. Storing \<open>d\<close> back in the
  second step changes nothing when the directory exists. The result is the
  \<^verbatim>\<open>unsigned int\<close> returned, \<open>- 1\<close> being \<^verbatim>\<open>0xFFFFFFFF\<close>, and the new state.
\<close>

definition alloc_page :: "config \<Rightarrow> pte_directory \<Rightarrow> nat \<Rightarrow> nat \<Rightarrow> vm \<Rightarrow> 32 word \<times> vm" where
  "alloc_page cfg fresh vpn rw s =
     (let outIndex = vpn div NR_PTES_PER_PAGE cfg;
          inIndex = vpn mod NR_PTES_PER_PAGE cfg;
          d = (case cur_dir s outIndex of None \<Rightarrow> fresh | Some d \<Rightarrow> d);
          s1 = set_cur_dir outIndex d s;
          fr = frame_scan (mapcounts s1) 0 [0..<NR_PAGEFRAMES cfg]
      in if mapcounts s1 fr = 16 then (- 1, s1)
         else
           let e1 = (d inIndex)\<lparr>valid := True, writable := False, pfn := fr\<rparr>;
               e2 = (if rw = 1 then e1\<lparr>private_tag := 1\<rparr>
                     else e1\<lparr>writable := True, private_tag := 3\<rparr>)
           in (of_nat fr,
               (set_cur_dir outIndex (d(inIndex := e2)) s1)
                 \<lparr>mapcounts := (mapcounts s1)(fr := mapcounts s1 fr + 1)\<rparr>))"

text \<open>
  \<^verbatim>\<open>free_page\<close> returns nothing and tests nothing. With the directory absent it reads
  through a null pointer: that is the result \<open>None\<close>. Otherwise it always runs to
  its end, whether the entry was valid or not.
\<close>

definition free_page :: "config \<Rightarrow> nat \<Rightarrow> vm \<Rightarrow> vm option" where
  "free_page cfg vpn s =
     (let outIndex = vpn div NR_PTES_PER_PAGE cfg;
          inIndex = vpn mod NR_PTES_PER_PAGE cfg
      in case cur_dir s outIndex of
           None \<Rightarrow> None
         | Some d \<Rightarrow>
             let fr = pfn (d inIndex);
                 e = (d inIndex)\<lparr>valid := False, writable := False, pfn := 0, private_tag := 0\<rparr>
             in Some (free_tlb cfg vpn
                  ((set_cur_dir outIndex (d(inIndex := e)) s)
                     \<lparr>mapcounts := (mapcounts s)(fr := mapcounts s fr - 1)\<rparr>)))"

subsection \<open>Fault handler\<close>

text \<open>
  \<^verbatim>\<open>handle_page_fault\<close>. Both calls of \<^verbatim>\<open>alloc_page\<close> drop the value returned and keep
  the state.
\<close>

definition handle_page_fault :: "config \<Rightarrow> pte_directory \<Rightarrow> nat \<Rightarrow> nat \<Rightarrow> vm \<Rightarrow> bool \<times> vm" where
  "handle_page_fault cfg fresh vpn rw s =
     (let outIndex = vpn div NR_PTES_PER_PAGE cfg;
          inIndex = vpn mod NR_PTES_PER_PAGE cfg
      in case cur_dir s outIndex of
           None \<Rightarrow> (False, s)
         | Some d \<Rightarrow>
             let e = d inIndex; fr = pfn e
             in if \<not> valid e then
                  (if mapcounts s fr = 1
                   then (True, set_cur_dir outIndex (d(inIndex := e\<lparr>valid := True\<rparr>)) s)
                   else (True, snd (alloc_page cfg fresh vpn rw
                           ((set_cur_dir outIndex (d(inIndex := e\<lparr>valid := True\<rparr>)) s)
                              \<lparr>mapcounts := (mapcounts s)(fr := mapcounts s fr - 1)\<rparr>))))
                else if \<not> writable e \<and> private_tag e = 3 then
                  (if mapcounts s fr = 1
                   then (True, set_cur_dir outIndex (d(inIndex := e\<lparr>writable := True\<rparr>)) s)
                   else (True, snd (alloc_page cfg fresh vpn rw
                           ((set_cur_dir outIndex (d(inIndex := e\<lparr>writable := True\<rparr>)) s)
                              \<lparr>mapcounts := (mapcounts s)(fr := mapcounts s fr - 1)\<rparr>))))
                else (False, s))"

subsection \<open>Switch and fork\<close>

text \<open>
  The body of the inner loop of the fork path, for the entry \<open>j\<close> of one directory:
  \<open>pd\<close> is the parent's directory, \<open>cd\<close> the child's, \<open>mc\<close> the table \<^verbatim>\<open>mapcounts\<close>.
\<close>

definition fork_pte ::
  "nat \<Rightarrow> pte_directory \<times> pte_directory \<times> (nat \<Rightarrow> 32 word)
       \<Rightarrow> pte_directory \<times> pte_directory \<times> (nat \<Rightarrow> 32 word)" where
  "fork_pte j x =
     (case x of (pd, cd, mc) \<Rightarrow>
        if \<not> valid (pd j) then x
        else
          let c1 = (cd j)\<lparr>valid := valid (pd j), writable := writable (pd j),
                          pfn := pfn (pd j), private_tag := private_tag (pd j)\<rparr>;
              pd' = (if private_tag (pd j) = 3 then pd(j := (pd j)\<lparr>writable := False\<rparr>) else pd);
              c2 = (if private_tag (pd j) = 3 then c1\<lparr>writable := False\<rparr> else c1)
          in (pd', cd(j := c2), mc(pfn c2 := mc (pfn c2) + 1)))"

fun fork_ptes ::
  "nat \<Rightarrow> pte_directory \<times> pte_directory \<times> (nat \<Rightarrow> 32 word)
       \<Rightarrow> pte_directory \<times> pte_directory \<times> (nat \<Rightarrow> 32 word)" where
  "fork_ptes 0 x = x"
| "fork_ptes (Suc j) x = fork_pte j (fork_ptes j x)"

text \<open>
  The body of the outer loop, for the outer index \<open>i\<close>: \<open>pt\<close> is the parent's page
  table, \<open>ct\<close> the child's, and \<open>fresh i\<close> the content of the directory that
  \<^verbatim>\<open>malloc\<close> returns for the child.
\<close>

definition fork_dir ::
  "config \<Rightarrow> (nat \<Rightarrow> pte_directory) \<Rightarrow> nat \<Rightarrow> pagetable \<times> pagetable \<times> (nat \<Rightarrow> 32 word)
       \<Rightarrow> pagetable \<times> pagetable \<times> (nat \<Rightarrow> 32 word)" where
  "fork_dir cfg fresh i x =
     (case x of (pt, ct, mc) \<Rightarrow>
        case outer_ptes pt i of
          None \<Rightarrow> x
        | Some pd \<Rightarrow>
            (case fork_ptes (NR_PTES_PER_PAGE cfg) (pd, fresh i, mc) of
               (pd', cd', mc') \<Rightarrow>
                 (pt\<lparr>outer_ptes := (outer_ptes pt)(i \<mapsto> pd')\<rparr>,
                  ct\<lparr>outer_ptes := (outer_ptes ct)(i \<mapsto> cd')\<rparr>,
                  mc')))"

fun fork_dirs ::
  "config \<Rightarrow> (nat \<Rightarrow> pte_directory) \<Rightarrow> nat \<Rightarrow> pagetable \<times> pagetable \<times> (nat \<Rightarrow> 32 word)
       \<Rightarrow> pagetable \<times> pagetable \<times> (nat \<Rightarrow> 32 word)" where
  "fork_dirs cfg fresh 0 x = x"
| "fork_dirs cfg fresh (Suc i) x = fork_dir cfg fresh i (fork_dirs cfg fresh i x)"

text \<open>
  \<^verbatim>\<open>switch_process\<close>. \<^verbatim>\<open>list_for_each_entry\<close> walks the queue from its head, so \<open>temp\<close>
  is the first member with the pid. \<^verbatim>\<open>list_add_tail\<close> appends the current process
  and \<^verbatim>\<open>list_del_init\<close> unlinks the node of \<open>temp\<close>; the list of addresses reads the
  queue as long as no process is linked twice, which holds when the running
  process is not queued. On the fork path \<open>child\<close> is the
  address that \<^verbatim>\<open>malloc\<close> returns for the new process, whose content before the
  loop is whatever the store holds there, and \<open>fresh\<close> gives the content of the
  directories allocated for it.
\<close>

definition switch_process :: "config \<Rightarrow> nat \<Rightarrow> (nat \<Rightarrow> pte_directory) \<Rightarrow> nat \<Rightarrow> vm \<Rightarrow> vm" where
  "switch_process cfg child fresh p s =
     (let s0 = flush_tlb cfg s
      in case find (\<lambda>a. pid (procs s0 a) = p) (processes s0) of
           Some temp \<Rightarrow>
             s0\<lparr>processes := remove1 temp (processes s0 @ [current s0]),
                current := temp, ptbr := temp\<rparr>
         | None \<Rightarrow>
             (case fork_dirs cfg fresh (NR_PTES_PER_PAGE cfg)
                     (pagetable (procs s0 (current s0)), pagetable (procs s0 child), mapcounts s0) of
                (pt, ct, mc) \<Rightarrow>
                  s0\<lparr>procs := (procs s0)
                        (current s0 := (procs s0 (current s0))\<lparr>pagetable := pt\<rparr>,
                         child := (procs s0 child)\<lparr>pagetable := ct, pid := p\<rparr>),
                     processes := processes s0 @ [current s0],
                     current := child, ptbr := child, mapcounts := mc\<rparr>))"

subsection \<open>Observations used in the statements\<close>

text \<open>
  The entry for page \<open>v\<close> in the page table of the process at address \<open>a\<close>; \<open>None\<close>
  when the outer directory is absent.
\<close>

definition pte_of :: "config \<Rightarrow> vm \<Rightarrow> nat \<Rightarrow> nat \<Rightarrow> pte option" where
  "pte_of cfg s a v =
     (case outer_ptes (pagetable (procs s a)) (v div NR_PTES_PER_PAGE cfg) of
        None \<Rightarrow> None
      | Some d \<Rightarrow> Some (d (v mod NR_PTES_PER_PAGE cfg)))"

text \<open>
  The number of valid entries of a page table that name frame \<open>f\<close>, over the
  \<open>NR_PTES_PER_PAGE\<close> directories of \<open>NR_PTES_PER_PAGE\<close> entries, and the same
  number over the current process and the ready queue.
\<close>

definition dir_refs :: "nat \<Rightarrow> pte_directory \<Rightarrow> nat \<Rightarrow> nat" where
  "dir_refs n d f = length (filter (\<lambda>j. valid (d j) \<and> pfn (d j) = f) [0..<n])"

definition pt_refs :: "config \<Rightarrow> pagetable \<Rightarrow> nat \<Rightarrow> nat" where
  "pt_refs cfg pt f =
     (\<Sum>i\<leftarrow>[0..<NR_PTES_PER_PAGE cfg].
        case outer_ptes pt i of None \<Rightarrow> 0 | Some d \<Rightarrow> dir_refs (NR_PTES_PER_PAGE cfg) d f)"

definition total_refs :: "config \<Rightarrow> vm \<Rightarrow> nat \<Rightarrow> nat" where
  "total_refs cfg s f = (\<Sum>a\<leftarrow>current s # processes s. pt_refs cfg (pagetable (procs s a)) f)"

subsection \<open>Example states\<close>

text \<open>
  The configuration of the examples: sixteen entries in a directory, 128 frames, and
  a cache of \<open>16 * 16\<close> entries.
\<close>

definition example_config :: config where
  "example_config = \<lparr>NR_PTES_PER_PAGE = 16, NR_PAGEFRAMES = 128, NR_TLB_ENTRIES = 256\<rparr>"

definition zero_dir :: pte_directory where
  "zero_dir = (\<lambda>j. \<lparr>valid = False, writable = False, pfn = 0, private_tag = 0\<rparr>)"

text \<open>
  One process, at address 0 with pid 0, with no directory; no frame in use; an empty
  cache.
\<close>

definition boot_vm :: vm where
  "boot_vm =
     \<lparr>procs = (\<lambda>a. \<lparr>pid = 0, pagetable = \<lparr>outer_ptes = (\<lambda>i. None)\<rparr>\<rparr>),
      current = 0, processes = [], ptbr = 0,
      tlb = (\<lambda>i. \<lparr>tlb_valid = False, tlb_vpn = 0, tlb_pfn = 0\<rparr>),
      mapcounts = (\<lambda>f. 0)\<rparr>"

text \<open>
  A run from \<open>boot_vm\<close>: pages 0 and 1 are allocated for writing (frames 0 and 1),
  and page 1 is deallocated. Then page 1 is accessed again, and \<^verbatim>\<open>handle_page_fault\<close>
  is called for it.
\<close>

definition freed_vm :: "vm option" where
  "freed_vm =
     free_page example_config 1
       (snd (alloc_page example_config zero_dir 1 2
          (snd (alloc_page example_config zero_dir 0 2 boot_vm))))"

definition revalidated_vm :: "vm option" where
  "revalidated_vm =
     map_option (\<lambda>s. snd (handle_page_fault example_config zero_dir 1 1 s)) freed_vm"

text \<open>
  The two states of that run written out. In \<open>freed_state\<close> page 0 is mapped to
  frame 0 and the entry of page 1 is cleared, so its frame field reads 0. In
  \<open>stale_state\<close> the handler has set the valid bit of that entry again.
\<close>

definition freed_state :: vm where
  "freed_state =
     boot_vm\<lparr>procs := (procs boot_vm)(0 :=
               \<lparr>pid = 0, pagetable = \<lparr>outer_ptes = (\<lambda>i. None)(0 \<mapsto> zero_dir
                  (0 := \<lparr>valid = True, writable = True, pfn = 0, private_tag = 3\<rparr>,
                   1 := \<lparr>valid = False, writable = False, pfn = 0, private_tag = 0\<rparr>))\<rparr>\<rparr>),
             mapcounts := (\<lambda>f. 0)(0 := 1)\<rparr>"

definition stale_state :: vm where
  "stale_state =
     boot_vm\<lparr>procs := (procs boot_vm)(0 :=
               \<lparr>pid = 0, pagetable = \<lparr>outer_ptes = (\<lambda>i. None)(0 \<mapsto> zero_dir
                  (0 := \<lparr>valid = True, writable = True, pfn = 0, private_tag = 3\<rparr>,
                   1 := \<lparr>valid = True, writable = False, pfn = 0, private_tag = 0\<rparr>))\<rparr>\<rparr>),
             mapcounts := (\<lambda>f. 0)(0 := 1)\<rparr>"

text \<open>
  A page table that maps each page \<open>v < 128\<close> to frame \<open>v\<close>, with the given writable
  bit and the tag 3 of a page allocated for writing.
\<close>

definition full_pagetable :: "bool \<Rightarrow> pagetable" where
  "full_pagetable w =
     \<lparr>outer_ptes = (\<lambda>i. if i < 8
        then Some (\<lambda>j. \<lparr>valid = True, writable = w, pfn = 16 * i + j, private_tag = 3\<rparr>)
        else None)\<rparr>"

text \<open>
  One process that has allocated all 128 frames for writing: every frame has
  reference count 1.
\<close>

definition full_vm :: vm where
  "full_vm =
     boot_vm\<lparr>procs := (\<lambda>a. \<lparr>pid = 0, pagetable = full_pagetable True\<rparr>),
             mapcounts := (\<lambda>f. if f < 128 then 1 else 0)\<rparr>"

text \<open>
  The same process after a fork to pid 1: the child, at address 1, is running, the
  parent is queued, every page is shared read-only and every frame has count 2.
\<close>

definition forked_full_vm :: vm where
  "forked_full_vm =
     boot_vm\<lparr>procs := (\<lambda>a. \<lparr>pid = (if a = 1 then 1 else 0), pagetable = full_pagetable False\<rparr>),
             current := 1, processes := [0], ptbr := 1,
             mapcounts := (\<lambda>f. if f < 128 then 2 else 0)\<rparr>"

text \<open>
  A process with the directory 0 present and empty, while every frame is at the
  sharing cap.
\<close>

definition capped_vm :: vm where
  "capped_vm =
     boot_vm\<lparr>procs := (\<lambda>a. \<lparr>pid = 0, pagetable = \<lparr>outer_ptes = (\<lambda>i. if i = 0 then Some zero_dir else None)\<rparr>\<rparr>),
             mapcounts := (\<lambda>f. 16)\<rparr>"

text \<open>
  From \<open>boot_vm\<close>, page 0 allocated for writing and page 1 allocated read-only.
\<close>

definition two_pages_vm :: vm where
  "two_pages_vm =
     snd (alloc_page example_config zero_dir 1 1
       (snd (alloc_page example_config zero_dir 0 2 boot_vm)))"

text \<open>
  The content of the directories of a child, when \<^verbatim>\<open>malloc\<close> returns zeroed memory.
\<close>

definition zero_dirs :: "nat \<Rightarrow> pte_directory" where
  "zero_dirs = (\<lambda>i. zero_dir)"

text \<open>
  From \<open>boot_vm\<close>: page 0 is allocated for writing and the process forks to pid 1,
  the child being stored at address 1. In \<open>sole_owner_vm\<close> the child has then
  written to page 0, which gave it a frame of its own, and the parent (pid 0) has
  been switched back in.
\<close>

definition forked_vm :: vm where
  "forked_vm =
     switch_process example_config 1 zero_dirs 1
       (snd (alloc_page example_config zero_dir 0 2 boot_vm))"

definition sole_owner_vm :: vm where
  "sole_owner_vm =
     switch_process example_config 2 zero_dirs 0
       (snd (handle_page_fault example_config zero_dir 0 2 forked_vm))"

text \<open>A running process 0 and a ready queue of the processes 1, 2 and 3.\<close>

definition queue_vm :: vm where
  "queue_vm =
     boot_vm\<lparr>procs := (\<lambda>a. \<lparr>pid = a, pagetable = \<lparr>outer_ptes = (\<lambda>i. None)\<rparr>\<rparr>),
             processes := [1, 2, 3]\<rparr>"

text \<open>No frame of the pool has reference count zero.\<close>

definition pool_exhausted :: "config \<Rightarrow> vm \<Rightarrow> bool" where
  "pool_exhausted cfg s = list_all (\<lambda>f. mapcounts s f \<noteq> 0) [0..<NR_PAGEFRAMES cfg]"

section \<open>The translation cache\<close>

lemma flush_loop_entry:
  "flush_loop n t i = (if i < n \<and> tlb_valid (t i) then (t i)\<lparr>tlb_valid := False\<rparr> else t i)"
  by (induction n) (auto simp: Let_def less_Suc_eq)

lemma free_loop_entry:
  "free_loop v n t i =
     (if i < n \<and> tlb_valid (t i) \<and> tlb_vpn (t i) = v then (t i)\<lparr>tlb_valid := False\<rparr> else t i)"
  by (induction n) (auto simp: Let_def less_Suc_eq)

lemma free_loop_eq:
  "free_loop v n t =
     (\<lambda>i. if i < n \<and> tlb_valid (t i) \<and> tlb_vpn (t i) = v then (t i)\<lparr>tlb_valid := False\<rparr> else t i)"
  by (rule ext) (rule free_loop_entry)

lemma lookup_scan_all_invalid:
  "(\<And>i. i \<in> set is \<Longrightarrow> \<not> tlb_valid (t i)) \<Longrightarrow> lookup_scan t v is = None"
  by (induction "is") auto

text \<open>
  C8. After \<open>flush_tlb\<close>, \<open>lookup_tlb\<close> finds no translation for any page number,
  whatever the cache held before the flush.
\<close>

theorem lookup_tlb_after_flush:
  "lookup_tlb cfg v (flush_tlb cfg s) = None"
  unfolding lookup_tlb_def flush_tlb_def
  by (simp, rule lookup_scan_all_invalid) (simp add: flush_loop_entry)

section \<open>Basic facts about the page table of the current process\<close>

lemma current_set_cur_dir [simp]: "current (set_cur_dir i d s) = current s"
  and processes_set_cur_dir [simp]: "processes (set_cur_dir i d s) = processes s"
  and ptbr_set_cur_dir [simp]: "ptbr (set_cur_dir i d s) = ptbr s"
  and tlb_set_cur_dir [simp]: "tlb (set_cur_dir i d s) = tlb s"
  and mapcounts_set_cur_dir [simp]: "mapcounts (set_cur_dir i d s) = mapcounts s"
  by (simp_all add: set_cur_dir_def)

lemma cur_dir_set_cur_dir [simp]:
  "cur_dir (set_cur_dir i d s) k = (if k = i then Some d else cur_dir s k)"
  by (simp add: cur_dir_def set_cur_dir_def)

lemma pid_set_cur_dir [simp]: "pid (procs (set_cur_dir i d s) a) = pid (procs s a)"
  by (simp add: set_cur_dir_def)

lemma cur_dir_mapcounts_update [simp]: "cur_dir (s\<lparr>mapcounts := m\<rparr>) k = cur_dir s k"
  by (simp add: cur_dir_def)

lemma set_cur_dir_same: "cur_dir s i = Some d \<Longrightarrow> set_cur_dir i d s = s"
  by (simp add: cur_dir_def set_cur_dir_def fun_upd_idem)

lemma pte_of_set_cur_dir:
  "pte_of cfg (set_cur_dir i d s) a v =
     (if a = current s \<and> v div NR_PTES_PER_PAGE cfg = i
      then Some (d (v mod NR_PTES_PER_PAGE cfg)) else pte_of cfg s a v)"
  by (simp add: pte_of_def set_cur_dir_def)

lemma pte_of_mapcounts_update [simp]: "pte_of cfg (s\<lparr>mapcounts := m\<rparr>) a v = pte_of cfg s a v"
  by (simp add: pte_of_def)

lemma pte_of_tlb_update [simp]: "pte_of cfg (s\<lparr>tlb := x\<rparr>) a v = pte_of cfg s a v"
  by (simp add: pte_of_def)

lemma pte_of_current:
  "pte_of cfg s (current s) v =
     map_option (\<lambda>d. d (v mod NR_PTES_PER_PAGE cfg)) (cur_dir s (v div NR_PTES_PER_PAGE cfg))"
  by (simp add: pte_of_def cur_dir_def split: option.splits)

lemma pte_of_current_Some:
  "pte_of cfg s (current s) v = Some e \<longleftrightarrow>
     (\<exists>d. cur_dir s (v div NR_PTES_PER_PAGE cfg) = Some d \<and> d (v mod NR_PTES_PER_PAGE cfg) = e)"
  by (auto simp: pte_of_def cur_dir_def split: option.splits)

lemma same_index:
  "u div (n::nat) = v div n \<Longrightarrow> u mod n = v mod n \<Longrightarrow> u = v"
  by (metis div_mult_mod_eq)

lemma pte_of_other_vpn:
  assumes "cur_dir s (v div NR_PTES_PER_PAGE cfg) = Some d"
    and "a \<noteq> current s \<or> u \<noteq> v"
  shows "pte_of cfg (set_cur_dir (v div NR_PTES_PER_PAGE cfg)
            (d(v mod NR_PTES_PER_PAGE cfg := x)) s) a u = pte_of cfg s a u"
  using assms by (auto simp: pte_of_set_cur_dir pte_of_current dest: same_index)

lemma vpn_in_range:
  assumes "v < n * n"
  shows "v div n < n" and "v mod n < (n::nat)"
proof -
  from assms have "0 < n" by (cases n) auto
  then show "v mod n < n" by simp
  from assms show "v div n < n"
    by (simp add: less_mult_imp_div_less)
qed

section \<open>The frame allocator\<close>

lemma frame_scan_first_free:
  "mc k = 0 \<Longrightarrow> (\<And>j. j \<in> set xs \<Longrightarrow> mc j \<noteq> 0) \<Longrightarrow> frame_scan mc p (xs @ k # ys) = k"
  by (induction xs arbitrary: p) auto

lemma frame_scan_no_free:
  "(\<And>j. j \<in> set xs \<Longrightarrow> mc j \<noteq> 0) \<Longrightarrow> frame_scan mc p xs = (if xs = [] then p else last xs)"
  by (induction xs arbitrary: p) auto

text \<open>With a free frame in the pool the scan stops on the lowest one.\<close>

lemma frame_scan_lowest:
  assumes "k < n" "mc k = 0" "\<And>j. j < k \<Longrightarrow> mc j \<noteq> 0"
  shows "frame_scan mc p [0..<n] = k"
proof -
  have split: "[0..<n] = [0..<k] @ k # [Suc k..<n]"
    using assms(1) by (metis less_imp_le_nat upt_add_eq_append upt_conv_Cons zero_le le_add_diff_inverse)
  have "frame_scan mc p ([0..<k] @ k # [Suc k..<n]) = k"
    by (rule frame_scan_first_free) (use assms(2,3) in auto)
  with split show ?thesis by simp
qed

text \<open>Without one it ends on the last frame of the pool, which is in use.\<close>

lemma frame_scan_exhausted:
  assumes "0 < n" "\<And>j. j < n \<Longrightarrow> mc j \<noteq> 0"
  shows "frame_scan mc p [0..<n] = n - 1"
proof -
  have "frame_scan mc p [0..<n] = (if [0..<n] = [] then p else last [0..<n])"
    by (rule frame_scan_no_free) (use assms(2) in auto)
  with assms(1) show ?thesis by simp
qed

lemma frame_scan_zero: "0 < n \<Longrightarrow> mc 0 = 0 \<Longrightarrow> frame_scan mc p [0..<n] = 0"
  by (rule frame_scan_lowest) auto

lemma frame_scan_one: "1 < n \<Longrightarrow> mc 0 \<noteq> 0 \<Longrightarrow> mc 1 = 0 \<Longrightarrow> frame_scan mc p [0..<n] = 1"
  by (rule frame_scan_lowest) auto

text \<open>\<open>alloc_page\<close> for a page whose directory exists.\<close>

lemma alloc_page_present:
  assumes "cur_dir s (v div NR_PTES_PER_PAGE cfg) = Some d"
  shows "alloc_page cfg fresh v rw s =
     (let fr = frame_scan (mapcounts s) 0 [0..<NR_PAGEFRAMES cfg]
      in if mapcounts s fr = 16 then (- 1, s)
         else (of_nat fr,
               (set_cur_dir (v div NR_PTES_PER_PAGE cfg)
                  (d(v mod NR_PTES_PER_PAGE cfg :=
                       \<lparr>valid = True, writable = (rw \<noteq> 1), pfn = fr,
                        private_tag = (if rw = 1 then 1 else 3)\<rparr>)) s)
                 \<lparr>mapcounts := (mapcounts s)(fr := mapcounts s fr + 1)\<rparr>))"
  using assms
  by (cases "d (v mod NR_PTES_PER_PAGE cfg)") (simp add: alloc_page_def Let_def set_cur_dir_same)

lemma alloc_page_keeps_valid:
  assumes "cur_dir s (v div NR_PTES_PER_PAGE cfg) = Some d"
    and "valid (d (v mod NR_PTES_PER_PAGE cfg))"
  shows "\<exists>e'. pte_of cfg (snd (alloc_page cfg fresh v rw s)) (current s) v = Some e' \<and> valid e'"
  using assms(2)
  by (simp add: alloc_page_present [OF assms(1)] Let_def pte_of_set_cur_dir)
     (simp add: pte_of_current assms(1))

text \<open>
  The part of the allocation contract that the code keeps: with a free frame in the
  pool, the lowest free frame is returned and mapped, with the writable bit and the
  tag of the access requested, and its count becomes 1.
\<close>

lemma alloc_page_lowest_free:
  assumes "g < NR_PAGEFRAMES cfg" and "mapcounts s g = 0" and "\<forall>j<g. mapcounts s j \<noteq> 0"
  shows "fst (alloc_page cfg fresh v rw s) = of_nat g
       \<and> pte_of cfg (snd (alloc_page cfg fresh v rw s)) (current s) v
           = Some \<lparr>valid = True, writable = (rw \<noteq> 1), pfn = g,
                   private_tag = (if rw = 1 then 1 else 3)\<rparr>
       \<and> mapcounts (snd (alloc_page cfg fresh v rw s)) = (mapcounts s)(g := 1)"
proof -
  let ?d = "case cur_dir s (v div NR_PTES_PER_PAGE cfg) of None \<Rightarrow> fresh | Some d \<Rightarrow> d"
  let ?s1 = "set_cur_dir (v div NR_PTES_PER_PAGE cfg) ?d s"
  have scan: "frame_scan (mapcounts s) 0 [0..<NR_PAGEFRAMES cfg] = g"
    by (rule frame_scan_lowest) (use assms in auto)
  have d1: "cur_dir ?s1 (v div NR_PTES_PER_PAGE cfg) = Some ?d"
    by simp
  have "alloc_page cfg fresh v rw s = alloc_page cfg fresh v rw ?s1"
    by (simp add: alloc_page_def Let_def set_cur_dir_def cur_dir_def)
  then show ?thesis
    using assms(2) by (simp add: alloc_page_present [OF d1] scan pte_of_set_cur_dir)
qed

text \<open>
  C1. \<open>alloc_page\<close> is to fail with \<open>- 1\<close> when no frame has reference count zero.
  In \<open>full_vm\<close> every one of the 128 frames has count 1 and page 128 is unmapped;
  the call for page 128 returns frame 127, not \<open>- 1\<close>, maps page 128 to it while
  page 127 still maps it, and raises its count to 2.
\<close>

theorem alloc_page_exhausted_pool:
  "pool_exhausted example_config full_vm
   \<and> pte_of example_config full_vm (current full_vm) 128 = None
   \<and> pte_of example_config full_vm (current full_vm) 127
       = Some \<lparr>valid = True, writable = True, pfn = 127, private_tag = 3\<rparr>
   \<and> mapcounts full_vm 127 = 1
   \<and> fst (alloc_page example_config zero_dir 128 2 full_vm) = 127
   \<and> fst (alloc_page example_config zero_dir 128 2 full_vm) \<noteq> - 1
   \<and> pte_of example_config (snd (alloc_page example_config zero_dir 128 2 full_vm))
        (current full_vm) 128
       = Some \<lparr>valid = True, writable = True, pfn = 127, private_tag = 3\<rparr>
   \<and> mapcounts (snd (alloc_page example_config zero_dir 128 2 full_vm)) 127 = 2"
  by code_simp

section \<open>The example run\<close>

lemmas run_defs = alloc_page_def free_page_def handle_page_fault_def free_tlb_def
  example_config_def boot_vm_def zero_dir_def cur_dir_def set_cur_dir_def Let_def

text \<open>The run of two allocations and a deallocation ends in \<open>freed_state\<close>.\<close>

lemma freed_vm_eq: "freed_vm = Some freed_state"
  by (simp add: freed_vm_def freed_state_def run_defs frame_scan_zero frame_scan_one
      free_loop_eq fun_eq_iff)

text \<open>The fault on the deallocated page then leads to \<open>stale_state\<close>.\<close>

lemma revalidated_vm_eq: "revalidated_vm = Some stale_state"
  by (simp add: revalidated_vm_def freed_vm_eq)
     (simp add: freed_state_def stale_state_def run_defs fun_eq_iff)

section \<open>The deallocator\<close>




section \<open>The fault handler\<close>

text \<open>
  C7. The current process has a valid, read-only entry with tag 3 for page \<open>v\<close>,
  and the frame it names has reference count 1. Then \<open>handle_page_fault\<close> returns
  true and sets the writable bit of that entry; the frame of the entry, every
  count, every other entry of every process, the cache and the queue are as
  before.
\<close>

theorem write_fault_sole_owner:
  assumes "pte_of cfg s (current s) v = Some e"
    and "valid e" and "\<not> writable e" and "private_tag e = 3"
    and "mapcounts s (pfn e) = 1"
  shows "fst (handle_page_fault cfg fresh v rw s) = True
       \<and> pte_of cfg (snd (handle_page_fault cfg fresh v rw s)) (current s) v
           = Some (e\<lparr>writable := True\<rparr>)
       \<and> (\<forall>a u. a \<noteq> current s \<or> u \<noteq> v \<longrightarrow>
             pte_of cfg (snd (handle_page_fault cfg fresh v rw s)) a u = pte_of cfg s a u)
       \<and> (\<forall>a. pid (procs (snd (handle_page_fault cfg fresh v rw s)) a) = pid (procs s a))
       \<and> mapcounts (snd (handle_page_fault cfg fresh v rw s)) = mapcounts s
       \<and> tlb (snd (handle_page_fault cfg fresh v rw s)) = tlb s
       \<and> current (snd (handle_page_fault cfg fresh v rw s)) = current s
       \<and> processes (snd (handle_page_fault cfg fresh v rw s)) = processes s
       \<and> ptbr (snd (handle_page_fault cfg fresh v rw s)) = ptbr s"
proof -
  obtain d where d: "cur_dir s (v div NR_PTES_PER_PAGE cfg) = Some d"
    and e: "d (v mod NR_PTES_PER_PAGE cfg) = e"
    using assms(1) by (auto simp: pte_of_current_Some)
  have r: "handle_page_fault cfg fresh v rw s =
      (True, set_cur_dir (v div NR_PTES_PER_PAGE cfg)
               (d(v mod NR_PTES_PER_PAGE cfg := e\<lparr>writable := True\<rparr>)) s)"
    using assms(2-5) d e by (simp add: handle_page_fault_def Let_def)
  have others: "\<forall>a u. a \<noteq> current s \<or> u \<noteq> v \<longrightarrow>
      pte_of cfg (set_cur_dir (v div NR_PTES_PER_PAGE cfg)
               (d(v mod NR_PTES_PER_PAGE cfg := e\<lparr>writable := True\<rparr>)) s) a u = pte_of cfg s a u"
    using pte_of_other_vpn [OF d] by blast
  show ?thesis
    unfolding r using others by (simp add: pte_of_set_cur_dir)
qed

text \<open>
  In \<open>sole_owner_vm\<close> the parent holds page 0 read-only with tag 3 on frame 0, which
  the child no longer shares.
\<close>

theorem write_fault_sole_owner_witness:
  "pte_of example_config sole_owner_vm (current sole_owner_vm) 0
     = Some \<lparr>valid = True, writable = False, pfn = 0, private_tag = 3\<rparr>
   \<and> mapcounts sole_owner_vm 0 = 1
   \<and> fst (handle_page_fault example_config zero_dir 0 2 sole_owner_vm) = True
   \<and> pte_of example_config (snd (handle_page_fault example_config zero_dir 0 2 sole_owner_vm))
        (current sole_owner_vm) 0
       = Some \<lparr>valid = True, writable = True, pfn = 0, private_tag = 3\<rparr>
   \<and> mapcounts (snd (handle_page_fault example_config zero_dir 0 2 sole_owner_vm))
       = mapcounts sole_owner_vm"
proof -
  let ?e = "\<lparr>valid = True, writable = False, pfn = 0, private_tag = 3\<rparr>"
  have h1: "pte_of example_config sole_owner_vm (current sole_owner_vm) 0 = Some ?e"
    by code_simp
  have h5: "mapcounts sole_owner_vm 0 = 1"
    by code_simp
  have "fst (handle_page_fault example_config zero_dir 0 2 sole_owner_vm) = True
      \<and> pte_of example_config (snd (handle_page_fault example_config zero_dir 0 2 sole_owner_vm))
           (current sole_owner_vm) 0 = Some (?e\<lparr>writable := True\<rparr>)
      \<and> mapcounts (snd (handle_page_fault example_config zero_dir 0 2 sole_owner_vm))
           = mapcounts sole_owner_vm"
    using write_fault_sole_owner [OF h1, of zero_dir 2] h5 by simp
  then show ?thesis
    using h1 h5 by simp
qed

text \<open>
  C9. The directory of page \<open>v\<close> exists, its entry is invalid, and the frame that
  the entry still names has a reference count other than 1. Then
  \<open>handle_page_fault\<close> sets the valid bit, decrements that count, calls
  \<open>alloc_page\<close> on the resulting state \<open>s1\<close> and returns true with the state that
  call leaves, whatever the call returns. When the frame that the scan selects in
  \<open>s1\<close> is at the cap of 16, the call returns \<open>- 1\<close> and the handler still returns
  true, with \<open>s1\<close> as the state. In every case the entry of \<open>v\<close> ends up valid.
\<close>

theorem fault_on_invalid_pte_returns_true:
  assumes "pte_of cfg s (current s) v = Some e"
    and "\<not> valid e"
    and "mapcounts s (pfn e) \<noteq> 1"
  shows "\<exists>s1. pte_of cfg s1 (current s) v = Some (e\<lparr>valid := True\<rparr>)
           \<and> mapcounts s1 = (mapcounts s)(pfn e := mapcounts s (pfn e) - 1)
           \<and> handle_page_fault cfg fresh v rw s = (True, snd (alloc_page cfg fresh v rw s1))
           \<and> (mapcounts s1 (frame_scan (mapcounts s1) 0 [0..<NR_PAGEFRAMES cfg]) = 16 \<longrightarrow>
                fst (alloc_page cfg fresh v rw s1) = - 1
              \<and> snd (handle_page_fault cfg fresh v rw s) = s1)
           \<and> (\<exists>e'. pte_of cfg (snd (handle_page_fault cfg fresh v rw s)) (current s) v = Some e'
                  \<and> valid e')"
proof -
  obtain d where d: "cur_dir s (v div NR_PTES_PER_PAGE cfg) = Some d"
    and e: "d (v mod NR_PTES_PER_PAGE cfg) = e"
    using assms(1) by (auto simp: pte_of_current_Some)
  let ?d1 = "d(v mod NR_PTES_PER_PAGE cfg := e\<lparr>valid := True\<rparr>)"
  let ?s1 = "(set_cur_dir (v div NR_PTES_PER_PAGE cfg) ?d1 s)
      \<lparr>mapcounts := (mapcounts s)(pfn e := mapcounts s (pfn e) - 1)\<rparr>"
  have d1: "cur_dir ?s1 (v div NR_PTES_PER_PAGE cfg) = Some ?d1"
    by simp
  have r: "handle_page_fault cfg fresh v rw s = (True, snd (alloc_page cfg fresh v rw ?s1))"
    using assms(2,3) d e by (simp add: handle_page_fault_def Let_def)
  have "pte_of cfg ?s1 (current s) v = Some (e\<lparr>valid := True\<rparr>)"
    by (simp add: pte_of_set_cur_dir)
  moreover have "mapcounts ?s1 = (mapcounts s)(pfn e := mapcounts s (pfn e) - 1)"
    by simp
  moreover have "mapcounts ?s1 (frame_scan (mapcounts ?s1) 0 [0..<NR_PAGEFRAMES cfg]) = 16 \<longrightarrow>
      fst (alloc_page cfg fresh v rw ?s1) = - 1 \<and> snd (handle_page_fault cfg fresh v rw s) = ?s1"
    unfolding r by (simp add: alloc_page_present [OF d1] Let_def)
  moreover have "\<exists>e'. pte_of cfg (snd (handle_page_fault cfg fresh v rw s)) (current s) v = Some e'
      \<and> valid e'"
    unfolding r using alloc_page_keeps_valid [OF d1, of fresh rw] by simp
  ultimately show ?thesis
    using r by blast
qed

text \<open>
  In \<open>capped_vm\<close> no frame is free and the last one is at the cap, so the inner
  allocation fails: the handler returns true, and page 0 is left valid on frame 0,
  the frame its invalid entry named, whose count went from 16 to 15.
\<close>

theorem fault_on_invalid_pte_returns_true_witness:
  "pte_of example_config capped_vm (current capped_vm) 0
     = Some \<lparr>valid = False, writable = False, pfn = 0, private_tag = 0\<rparr>
   \<and> mapcounts capped_vm 0 \<noteq> 1
   \<and> fst (handle_page_fault example_config zero_dir 0 2 capped_vm) = True
   \<and> pte_of example_config (snd (handle_page_fault example_config zero_dir 0 2 capped_vm))
        (current capped_vm) 0
       = Some \<lparr>valid = True, writable = False, pfn = 0, private_tag = 0\<rparr>
   \<and> mapcounts (snd (handle_page_fault example_config zero_dir 0 2 capped_vm)) 0 = 15
   \<and> pool_exhausted example_config (snd (handle_page_fault example_config zero_dir 0 2 capped_vm))"
proof -
  let ?e = "\<lparr>valid = False, writable = False, pfn = 0, private_tag = 0\<rparr>"
  have h1: "pte_of example_config capped_vm (current capped_vm) 0 = Some ?e"
    by code_simp
  have h2: "\<not> valid ?e"
    by simp
  have h3: "mapcounts capped_vm (pfn ?e) \<noteq> 1"
    by (simp add: capped_vm_def boot_vm_def)
  from fault_on_invalid_pte_returns_true [OF h1 h2 h3, of zero_dir 2]
  obtain s1 where s1: "pte_of example_config s1 (current capped_vm) 0 = Some (?e\<lparr>valid := True\<rparr>)"
      "mapcounts s1 = (mapcounts capped_vm)(pfn ?e := mapcounts capped_vm (pfn ?e) - 1)"
      "handle_page_fault example_config zero_dir 0 2 capped_vm
         = (True, snd (alloc_page example_config zero_dir 0 2 s1))"
      "mapcounts s1 (frame_scan (mapcounts s1) 0 [0..<NR_PAGEFRAMES example_config]) = 16 \<longrightarrow>
         fst (alloc_page example_config zero_dir 0 2 s1) = - 1
         \<and> snd (handle_page_fault example_config zero_dir 0 2 capped_vm) = s1"
    by blast
  have m: "mapcounts s1 = (\<lambda>f. 16)(0 := 15)"
    by (simp add: s1(2) capped_vm_def boot_vm_def)
  have "frame_scan (mapcounts s1) 0 [0..<NR_PAGEFRAMES example_config] = 127"
    unfolding m example_config_def by (simp add: frame_scan_exhausted)
  then have "mapcounts s1 (frame_scan (mapcounts s1) 0 [0..<NR_PAGEFRAMES example_config]) = 16"
    by (simp add: m)
  with s1(4) have eq: "snd (handle_page_fault example_config zero_dir 0 2 capped_vm) = s1"
    by blast
  have "pool_exhausted example_config s1"
    by (simp add: pool_exhausted_def m list_all_iff)
  with eq s1(1,3) m h1 h3 show ?thesis
    by simp
qed

text \<open>
  C3, as amended. Two processes hold a valid, read-only entry with tag 3 for page
  \<open>v\<close> on the same frame \<open>f\<close>, whose reference count is 2, and the pool has a free
  frame, \<open>g\<close> being the lowest. Then a write fault on \<open>v\<close> in the current process
  returns true, takes the count of \<open>f\<close> to 1, and leaves the entry of the current
  process valid and writable on frame \<open>g\<close>, which differs from \<open>f\<close> and now has count
  1; the entry of the other process is as before.
\<close>

theorem cow_write_fault_copies:
  assumes "rw \<noteq> 1"
    and "pte_of cfg s (current s) v = Some e"
    and "valid e" and "\<not> writable e" and "private_tag e = 3" and "pfn e = f"
    and "q \<noteq> current s"
    and "pte_of cfg s q v = Some e'"
    and "valid e'" and "\<not> writable e'" and "private_tag e' = 3" and "pfn e' = f"
    and "mapcounts s f = 2"
    and "g < NR_PAGEFRAMES cfg" and "mapcounts s g = 0"
    and "\<forall>j<g. mapcounts s j \<noteq> 0"
  shows "fst (handle_page_fault cfg fresh v rw s) = True
       \<and> mapcounts (snd (handle_page_fault cfg fresh v rw s)) f = 1
       \<and> pte_of cfg (snd (handle_page_fault cfg fresh v rw s)) (current s) v
           = Some \<lparr>valid = True, writable = True, pfn = g, private_tag = 3\<rparr>
       \<and> g \<noteq> f
       \<and> mapcounts (snd (handle_page_fault cfg fresh v rw s)) g = 1
       \<and> pte_of cfg (snd (handle_page_fault cfg fresh v rw s)) q v = Some e'"
proof -
  obtain d where d: "cur_dir s (v div NR_PTES_PER_PAGE cfg) = Some d"
    and e: "d (v mod NR_PTES_PER_PAGE cfg) = e"
    using assms(2) by (auto simp: pte_of_current_Some)
  let ?d1 = "d(v mod NR_PTES_PER_PAGE cfg := e\<lparr>writable := True\<rparr>)"
  let ?mc = "(mapcounts s)(f := mapcounts s f - 1)"
  let ?s1 = "(set_cur_dir (v div NR_PTES_PER_PAGE cfg) ?d1 s)\<lparr>mapcounts := ?mc\<rparr>"
  have gf: "g \<noteq> f"
    using assms(13,15) by auto
  have d1: "cur_dir ?s1 (v div NR_PTES_PER_PAGE cfg) = Some ?d1"
    by simp
  have r: "handle_page_fault cfg fresh v rw s = (True, snd (alloc_page cfg fresh v rw ?s1))"
    using assms(3-6,13) d e by (simp add: handle_page_fault_def Let_def)
  have scan: "frame_scan ?mc 0 [0..<NR_PAGEFRAMES cfg] = g"
  proof (rule frame_scan_lowest)
    show "g < NR_PAGEFRAMES cfg" by (rule assms(14))
    show "?mc g = 0" using gf assms(15) by simp
    show "?mc j \<noteq> 0" if "j < g" for j
      using that assms(13,16) by (cases "j = f") auto
  qed
  have a: "snd (alloc_page cfg fresh v rw ?s1) =
      (set_cur_dir (v div NR_PTES_PER_PAGE cfg)
         (?d1(v mod NR_PTES_PER_PAGE cfg :=
            \<lparr>valid = True, writable = True, pfn = g, private_tag = 3\<rparr>)) ?s1)
        \<lparr>mapcounts := ?mc(g := 1)\<rparr>"
    using assms(1,15) gf by (simp add: alloc_page_present [OF d1] scan)
  have "mapcounts (snd (handle_page_fault cfg fresh v rw s)) f = 1"
    unfolding r a using gf assms(13) by simp
  moreover have "pte_of cfg (snd (handle_page_fault cfg fresh v rw s)) (current s) v
      = Some \<lparr>valid = True, writable = True, pfn = g, private_tag = 3\<rparr>"
    unfolding r a by (simp add: pte_of_set_cur_dir)
  moreover have "mapcounts (snd (handle_page_fault cfg fresh v rw s)) g = 1"
    unfolding r a by simp
  moreover have "pte_of cfg (snd (handle_page_fault cfg fresh v rw s)) q v = Some e'"
    unfolding r a using assms(7,8) by (simp add: pte_of_set_cur_dir)
  ultimately show ?thesis
    using r gf by simp
qed

text \<open>
  In \<open>forked_vm\<close> the child, which is running, and the parent share frame 0 for page
  0, and frame 1 is the lowest free frame.
\<close>

theorem cow_write_fault_copies_witness:
  "pte_of example_config forked_vm (current forked_vm) 0
     = Some \<lparr>valid = True, writable = False, pfn = 0, private_tag = 3\<rparr>
   \<and> 0 \<noteq> current forked_vm
   \<and> pte_of example_config forked_vm 0 0
     = Some \<lparr>valid = True, writable = False, pfn = 0, private_tag = 3\<rparr>
   \<and> mapcounts forked_vm 0 = 2
   \<and> 1 < NR_PAGEFRAMES example_config \<and> mapcounts forked_vm 1 = 0
   \<and> mapcounts forked_vm 0 \<noteq> 0
   \<and> fst (handle_page_fault example_config zero_dir 0 2 forked_vm) = True
   \<and> mapcounts (snd (handle_page_fault example_config zero_dir 0 2 forked_vm)) 0 = 1
   \<and> pte_of example_config (snd (handle_page_fault example_config zero_dir 0 2 forked_vm))
        (current forked_vm) 0
       = Some \<lparr>valid = True, writable = True, pfn = 1, private_tag = 3\<rparr>
   \<and> mapcounts (snd (handle_page_fault example_config zero_dir 0 2 forked_vm)) 1 = 1
   \<and> pte_of example_config (snd (handle_page_fault example_config zero_dir 0 2 forked_vm)) 0 0
       = Some \<lparr>valid = True, writable = False, pfn = 0, private_tag = 3\<rparr>"
proof -
  let ?e = "\<lparr>valid = True, writable = False, pfn = 0, private_tag = 3\<rparr>"
  have h0: "(2::nat) \<noteq> 1" by simp
  have h1: "pte_of example_config forked_vm (current forked_vm) 0 = Some ?e"
    by code_simp
  have h2: "0 \<noteq> current forked_vm"
    by code_simp
  have h3: "pte_of example_config forked_vm 0 0 = Some ?e"
    by code_simp
  have h4: "mapcounts forked_vm 0 = 2"
    by code_simp
  have h5: "1 < NR_PAGEFRAMES example_config"
    by code_simp
  have h6: "mapcounts forked_vm 1 = 0"
    by code_simp
  have h7: "\<forall>j<1. mapcounts forked_vm j \<noteq> 0"
    using h4 by simp
  have "fst (handle_page_fault example_config zero_dir 0 2 forked_vm) = True
   \<and> mapcounts (snd (handle_page_fault example_config zero_dir 0 2 forked_vm)) 0 = 1
   \<and> pte_of example_config (snd (handle_page_fault example_config zero_dir 0 2 forked_vm))
        (current forked_vm) 0
       = Some \<lparr>valid = True, writable = True, pfn = 1, private_tag = 3\<rparr>
   \<and> 1 \<noteq> (0::nat)
   \<and> mapcounts (snd (handle_page_fault example_config zero_dir 0 2 forked_vm)) 1 = 1
   \<and> pte_of example_config (snd (handle_page_fault example_config zero_dir 0 2 forked_vm)) 0 0
       = Some ?e"
    by (rule cow_write_fault_copies [OF h0 h1 _ _ _ _ h2 h3 _ _ _ _ h4 h5 h6 h7]) simp_all
  then show ?thesis
    using h1 h2 h3 h4 h5 h6 by simp
qed

text \<open>
  C3 as stated fails when the pool has no free frame. In \<open>forked_full_vm\<close> parent and
  child share every frame, page 127 being on frame 127 with count 2. The write
  fault of the child on page 127 decrements that count, the scan of \<open>alloc_page\<close>
  ends on frame 127 itself, and the child's entry is made writable on the frame
  that the parent still maps read-only, whose count is 2 again.
\<close>

theorem cow_write_fault_copies_counterexample:
  "pte_of example_config forked_full_vm (current forked_full_vm) 127
     = Some \<lparr>valid = True, writable = False, pfn = 127, private_tag = 3\<rparr>
   \<and> 0 \<noteq> current forked_full_vm
   \<and> pte_of example_config forked_full_vm 0 127
     = Some \<lparr>valid = True, writable = False, pfn = 127, private_tag = 3\<rparr>
   \<and> mapcounts forked_full_vm 127 = 2
   \<and> fst (handle_page_fault example_config zero_dir 127 2 forked_full_vm) = True
   \<and> mapcounts (snd (handle_page_fault example_config zero_dir 127 2 forked_full_vm)) 127 = 2
   \<and> pte_of example_config (snd (handle_page_fault example_config zero_dir 127 2 forked_full_vm))
        (current forked_full_vm) 127
       = Some \<lparr>valid = True, writable = True, pfn = 127, private_tag = 3\<rparr>
   \<and> pte_of example_config (snd (handle_page_fault example_config zero_dir 127 2 forked_full_vm))
        0 127
       = Some \<lparr>valid = True, writable = False, pfn = 127, private_tag = 3\<rparr>"
  by code_simp

section \<open>Switch and fork\<close>

lemma flush_tlb_fields [simp]:
  "procs (flush_tlb cfg s) = procs s"
  "current (flush_tlb cfg s) = current s"
  "processes (flush_tlb cfg s) = processes s"
  "ptbr (flush_tlb cfg s) = ptbr s"
  "mapcounts (flush_tlb cfg s) = mapcounts s"
  by (simp_all add: flush_tlb_def)

lemma find_first_split:
  assumes "\<exists>a\<in>set xs. P a"
  shows "\<exists>ys t zs. xs = ys @ t # zs \<and> P t \<and> (\<forall>a\<in>set ys. \<not> P a) \<and> find P xs = Some t"
proof -
  from split_list_first_prop [OF assms]
  obtain ys t zs where s: "xs = ys @ t # zs" "P t" "\<forall>a\<in>set ys. \<not> P a"
    by blast
  from s(2,3) have "find P (ys @ t # zs) = Some t"
    by (induction ys) auto
  with s show ?thesis by blast
qed

text \<open>
  C6. Some queued process has pid \<open>p\<close>. Then the queue splits as \<open>xs @ t # ys\<close> with
  \<open>t\<close> the first process of pid \<open>p\<close>, and after \<open>switch_process\<close> the queue is
  \<open>xs @ ys @ [current s]\<close>: \<open>t\<close> is gone, the others keep their order, and the
  process that was running is at the tail. \<open>t\<close> is the current process and the
  register points at its page table; no process object and no count changes.
\<close>

theorem switch_to_queued_process:
  assumes "\<exists>a\<in>set (processes s). pid (procs s a) = p"
  shows "\<exists>xs t ys. processes s = xs @ t # ys
           \<and> pid (procs s t) = p \<and> (\<forall>a\<in>set xs. pid (procs s a) \<noteq> p)
           \<and> processes (switch_process cfg child fresh p s) = xs @ ys @ [current s]
           \<and> current (switch_process cfg child fresh p s) = t
           \<and> ptbr (switch_process cfg child fresh p s) = t
           \<and> procs (switch_process cfg child fresh p s) = procs s
           \<and> mapcounts (switch_process cfg child fresh p s) = mapcounts s"
proof -
  from find_first_split [OF assms]
  obtain xs t ys where s: "processes s = xs @ t # ys" "pid (procs s t) = p"
      "\<forall>a\<in>set xs. pid (procs s a) \<noteq> p"
      "find (\<lambda>a. pid (procs s a) = p) (processes s) = Some t"
    by blast
  from s(2,3) have "t \<notin> set xs" by blast
  then have "remove1 t (processes s @ [current s]) = xs @ ys @ [current s]"
    by (simp add: s(1) remove1_append)
  with s(4) have "processes (switch_process cfg child fresh p s) = xs @ ys @ [current s]
      \<and> current (switch_process cfg child fresh p s) = t
      \<and> ptbr (switch_process cfg child fresh p s) = t
      \<and> procs (switch_process cfg child fresh p s) = procs s
      \<and> mapcounts (switch_process cfg child fresh p s) = mapcounts s"
    by (simp add: switch_process_def Let_def)
  with s(1-3) show ?thesis by blast
qed

text \<open>
  In \<open>queue_vm\<close> the process at address \<open>a\<close> has pid \<open>a\<close>; switching to pid 2 turns the
  queue 1, 2, 3 into 1, 3, 0.
\<close>

theorem switch_to_queued_process_witness:
  "2 \<in> set (processes queue_vm) \<and> pid (procs queue_vm 2) = 2
   \<and> processes (switch_process example_config 4 zero_dirs 2 queue_vm) = [1, 3, 0]
   \<and> current (switch_process example_config 4 zero_dirs 2 queue_vm) = 2
   \<and> ptbr (switch_process example_config 4 zero_dirs 2 queue_vm) = 2"
proof -
  have h: "\<exists>a\<in>set (processes queue_vm). pid (procs queue_vm a) = 2"
    by (simp add: queue_vm_def boot_vm_def)
  from switch_to_queued_process [OF h, of example_config 4 zero_dirs]
  obtain xs t ys where s: "processes queue_vm = xs @ t # ys"
      "pid (procs queue_vm t) = 2"
      "processes (switch_process example_config 4 zero_dirs 2 queue_vm) = xs @ ys @ [current queue_vm]"
      "current (switch_process example_config 4 zero_dirs 2 queue_vm) = t"
      "ptbr (switch_process example_config 4 zero_dirs 2 queue_vm) = t"
    by blast
  from s(2) have t: "t = 2"
    by (simp add: queue_vm_def boot_vm_def)
  from s(1) t have "xs = [1] \<and> ys = [3]"
    by (auto simp: queue_vm_def boot_vm_def append_eq_Cons_conv Cons_eq_append_conv)
  with s(3-5) t h show ?thesis
    by (simp add: queue_vm_def boot_vm_def)
qed

subsection \<open>The two loops of the fork path\<close>

lemma dir_refs_Suc:
  "dir_refs (Suc n) d f = dir_refs n d f + (if valid (d n) \<and> pfn (d n) = f then 1 else 0)"
  by (simp add: dir_refs_def)

text \<open>
  The inner loop after \<open>n\<close> iterations: the parent's entries with tag 3 have lost
  the writable bit, the child holds a copy of every valid entry, and each count has
  grown by the number of valid entries that name the frame.
\<close>

lemma fork_ptes_result:
  "fork_ptes n (pd, cd, mc) =
     ((\<lambda>j. if j < n \<and> valid (pd j) \<and> private_tag (pd j) = 3
            then (pd j)\<lparr>writable := False\<rparr> else pd j),
      (\<lambda>j. if j < n \<and> valid (pd j)
            then (if private_tag (pd j) = 3 then (pd j)\<lparr>writable := False\<rparr> else pd j)
            else cd j),
      (\<lambda>f. mc f + of_nat (dir_refs n pd f)))"
proof (induction n)
  case 0
  then show ?case by (simp add: dir_refs_def)
next
  case (Suc n)
  show ?case
    apply (simp add: Suc fork_pte_def Let_def dir_refs_Suc)
    apply (cases "pd n")
    apply (auto simp: fun_eq_iff less_Suc_eq)
    done
qed

lemma fork_dirs_result:
  "fork_dirs cfg fresh n (pt, ct, mc) =
     (pt\<lparr>outer_ptes := (\<lambda>i. if i < n
          then map_option (\<lambda>pd j. if j < NR_PTES_PER_PAGE cfg \<and> valid (pd j) \<and> private_tag (pd j) = 3
                                   then (pd j)\<lparr>writable := False\<rparr> else pd j) (outer_ptes pt i)
          else outer_ptes pt i)\<rparr>,
      ct\<lparr>outer_ptes := (\<lambda>i. if i < n
          then (case outer_ptes pt i of
                  None \<Rightarrow> outer_ptes ct i
                | Some pd \<Rightarrow> Some (\<lambda>j. if j < NR_PTES_PER_PAGE cfg \<and> valid (pd j)
                     then (if private_tag (pd j) = 3 then (pd j)\<lparr>writable := False\<rparr> else pd j)
                     else fresh i j))
          else outer_ptes ct i)\<rparr>,
      (\<lambda>f. mc f + of_nat (\<Sum>i\<leftarrow>[0..<n]. case outer_ptes pt i of
                                   None \<Rightarrow> 0
                                 | Some d \<Rightarrow> dir_refs (NR_PTES_PER_PAGE cfg) d f)))"
proof (induction n)
  case 0
  then show ?case by simp
next
  case (Suc n)
  show ?case
    apply (simp add: Suc fork_dir_def fork_ptes_result)
    apply (auto simp: fork_ptes_result fun_eq_iff less_Suc_eq split: option.splits)
    done
qed

lemma switch_process_fork:
  assumes "find (\<lambda>a. pid (procs s a) = p) (processes s) = None"
  shows "switch_process cfg child fresh p s =
     (case fork_dirs cfg fresh (NR_PTES_PER_PAGE cfg)
             (pagetable (procs s (current s)), pagetable (procs s child), mapcounts s) of
        (pt, ct, mc) \<Rightarrow>
          (flush_tlb cfg s)\<lparr>procs := (procs s)
                (current s := (procs s (current s))\<lparr>pagetable := pt\<rparr>,
                 child := (procs s child)\<lparr>pagetable := ct, pid := p\<rparr>),
             processes := processes s @ [current s],
             current := child, ptbr := child, mapcounts := mc\<rparr>)"
  using assms by (simp add: switch_process_def Let_def)

lemma fork_mapcounts:
  assumes "find (\<lambda>a. pid (procs s a) = p) (processes s) = None"
  shows "mapcounts (switch_process cfg child fresh p s) f =
     mapcounts s f + of_nat (pt_refs cfg (pagetable (procs s (current s))) f)"
  by (simp add: switch_process_fork [OF assms] fork_dirs_result pt_refs_def)

lemma fork_parent_pte:
  assumes "find (\<lambda>a. pid (procs s a) = p) (processes s) = None"
    and "child \<noteq> current s"
    and "v < NR_PTES_PER_PAGE cfg * NR_PTES_PER_PAGE cfg"
    and "pte_of cfg s (current s) v = Some e"
  shows "pte_of cfg (switch_process cfg child fresh p s) (current s) v =
     Some (if valid e \<and> private_tag e = 3 then e\<lparr>writable := False\<rparr> else e)"
  using assms(2,4) vpn_in_range [OF assms(3)]
  by (auto simp: switch_process_fork [OF assms(1)] fork_dirs_result pte_of_def split: option.splits)

lemma fork_child_pte:
  assumes "find (\<lambda>a. pid (procs s a) = p) (processes s) = None"
    and "v < NR_PTES_PER_PAGE cfg * NR_PTES_PER_PAGE cfg"
    and "pte_of cfg s (current s) v = Some e" and "valid e"
  shows "pte_of cfg (switch_process cfg child fresh p s) child v =
     Some (if private_tag e = 3 then e\<lparr>writable := False\<rparr> else e)"
  using assms(3,4) vpn_in_range [OF assms(2)]
  by (auto simp: switch_process_fork [OF assms(1)] fork_dirs_result pte_of_def split: option.splits)

subsection \<open>What a fork shares\<close>

text \<open>
  C10. No queued process has pid \<open>p\<close>, so \<open>switch_process\<close> forks; the child is
  stored at an address other than the parent's. Then the count of every frame \<open>f\<close>
  grows (modulo \<open>2^32\<close>) by the number of valid entries of the parent that name \<open>f\<close>,
  whatever their tag; every valid entry of the parent has a valid copy in the child
  with the same frame and tag; and an entry whose tag is not 3 is the same in the
  child as in the parent, where it does not change, writable bit included.
\<close>

theorem fork_counts_every_valid_pte:
  assumes "find (\<lambda>a. pid (procs s a) = p) (processes s) = None"
    and "child \<noteq> current s"
  shows "mapcounts (switch_process cfg child fresh p s) f =
           mapcounts s f + of_nat (pt_refs cfg (pagetable (procs s (current s))) f)
       \<and> (\<forall>v e. v < NR_PTES_PER_PAGE cfg * NR_PTES_PER_PAGE cfg
               \<and> pte_of cfg s (current s) v = Some e \<and> valid e \<longrightarrow>
             (\<exists>e'. pte_of cfg (switch_process cfg child fresh p s) child v = Some e'
                  \<and> valid e' \<and> pfn e' = pfn e \<and> private_tag e' = private_tag e))
       \<and> (\<forall>v e. v < NR_PTES_PER_PAGE cfg * NR_PTES_PER_PAGE cfg
               \<and> pte_of cfg s (current s) v = Some e \<and> valid e \<and> private_tag e \<noteq> 3 \<longrightarrow>
             pte_of cfg (switch_process cfg child fresh p s) child v = Some e
           \<and> pte_of cfg (switch_process cfg child fresh p s) (current s) v = Some e)"
proof (intro conjI allI impI)
  show "mapcounts (switch_process cfg child fresh p s) f =
      mapcounts s f + of_nat (pt_refs cfg (pagetable (procs s (current s))) f)"
    by (rule fork_mapcounts [OF assms(1)])
next
  fix v e
  assume h: "v < NR_PTES_PER_PAGE cfg * NR_PTES_PER_PAGE cfg
      \<and> pte_of cfg s (current s) v = Some e \<and> valid e"
  then have "pte_of cfg (switch_process cfg child fresh p s) child v =
      Some (if private_tag e = 3 then e\<lparr>writable := False\<rparr> else e)"
    by (simp add: fork_child_pte [OF assms(1)])
  with h show "\<exists>e'. pte_of cfg (switch_process cfg child fresh p s) child v = Some e'
      \<and> valid e' \<and> pfn e' = pfn e \<and> private_tag e' = private_tag e"
    by simp
next
  fix v e
  assume h: "v < NR_PTES_PER_PAGE cfg * NR_PTES_PER_PAGE cfg
      \<and> pte_of cfg s (current s) v = Some e \<and> valid e \<and> private_tag e \<noteq> 3"
  then show "pte_of cfg (switch_process cfg child fresh p s) child v = Some e"
    by (simp add: fork_child_pte [OF assms(1)])
next
  fix v e
  assume h: "v < NR_PTES_PER_PAGE cfg * NR_PTES_PER_PAGE cfg
      \<and> pte_of cfg s (current s) v = Some e \<and> valid e \<and> private_tag e \<noteq> 3"
  then show "pte_of cfg (switch_process cfg child fresh p s) (current s) v = Some e"
    by (simp add: fork_parent_pte [OF assms(1,2)])
qed

text \<open>
  In \<open>two_pages_vm\<close> page 1 was allocated read-only on frame 1. After the fork to
  pid 1 both processes map it, unchanged, and the count of frame 1 is 2.
\<close>

theorem fork_counts_every_valid_pte_witness:
  "find (\<lambda>a. pid (procs two_pages_vm a) = 1) (processes two_pages_vm) = None
   \<and> 1 \<noteq> current two_pages_vm
   \<and> pte_of example_config two_pages_vm (current two_pages_vm) 1
       = Some \<lparr>valid = True, writable = False, pfn = 1, private_tag = 1\<rparr>
   \<and> mapcounts two_pages_vm 1 = 1
   \<and> mapcounts (switch_process example_config 1 zero_dirs 1 two_pages_vm) 1 = 2
   \<and> pte_of example_config (switch_process example_config 1 zero_dirs 1 two_pages_vm) 1 1
       = Some \<lparr>valid = True, writable = False, pfn = 1, private_tag = 1\<rparr>
   \<and> pte_of example_config (switch_process example_config 1 zero_dirs 1 two_pages_vm) 0 1
       = Some \<lparr>valid = True, writable = False, pfn = 1, private_tag = 1\<rparr>"
proof -
  have h1: "find (\<lambda>a. pid (procs two_pages_vm a) = 1) (processes two_pages_vm) = None"
    by code_simp
  have h2: "1 \<noteq> current two_pages_vm"
    by code_simp
  have c: "current two_pages_vm = 0"
    by code_simp
  have e: "pte_of example_config two_pages_vm (current two_pages_vm) 1
       = Some \<lparr>valid = True, writable = False, pfn = 1, private_tag = 1\<rparr>"
    by code_simp
  have m: "mapcounts two_pages_vm 1 = 1"
    by code_simp
  have r: "pt_refs example_config (pagetable (procs two_pages_vm (current two_pages_vm))) 1 = 1"
    by code_simp
  have n: "(1::nat) < NR_PTES_PER_PAGE example_config * NR_PTES_PER_PAGE example_config"
    by code_simp
  note t = fork_counts_every_valid_pte [OF h1 h2, of example_config zero_dirs 1]
  from t m r have "mapcounts (switch_process example_config 1 zero_dirs 1 two_pages_vm) 1 = 2"
    by simp
  moreover from t n e
  have "pte_of example_config (switch_process example_config 1 zero_dirs 1 two_pages_vm) 1 1
        = Some \<lparr>valid = True, writable = False, pfn = 1, private_tag = 1\<rparr>
      \<and> pte_of example_config (switch_process example_config 1 zero_dirs 1 two_pages_vm)
          (current two_pages_vm) 1
        = Some \<lparr>valid = True, writable = False, pfn = 1, private_tag = 1\<rparr>"
    by simp
  ultimately show ?thesis
    using h1 h2 e m c by simp
qed

text \<open>
  The fork loop on a page with tag 3. The current process has a valid entry with
  tag 3 for page \<open>v\<close> on frame \<open>f\<close>, the count of \<open>f\<close> is 1, and that entry is the only
  valid entry of the current process that names \<open>f\<close>, as it is whenever the count
  of \<open>f\<close> is the number of valid entries on \<open>f\<close>. Then after a fork the count of \<open>f\<close>
  is 2, and parent and child both hold the entry for \<open>v\<close> valid, read-only and on
  frame \<open>f\<close>; the child is running and the parent is at the tail of the queue.
\<close>

lemma fork_shares_sole_cow_page:
  assumes "find (\<lambda>a. pid (procs s a) = p) (processes s) = None"
    and "child \<noteq> current s"
    and "v < NR_PTES_PER_PAGE cfg * NR_PTES_PER_PAGE cfg"
    and "pte_of cfg s (current s) v = Some e"
    and "valid e" and "private_tag e = 3" and "pfn e = f"
    and "mapcounts s f = 1"
    and "pt_refs cfg (pagetable (procs s (current s))) f = 1"
  shows "mapcounts (switch_process cfg child fresh p s) f = 2
       \<and> pte_of cfg (switch_process cfg child fresh p s) (current s) v
           = Some \<lparr>valid = True, writable = False, pfn = f, private_tag = 3\<rparr>
       \<and> pte_of cfg (switch_process cfg child fresh p s) child v
           = Some \<lparr>valid = True, writable = False, pfn = f, private_tag = 3\<rparr>
       \<and> current (switch_process cfg child fresh p s) = child
       \<and> processes (switch_process cfg child fresh p s) = processes s @ [current s]"
proof -
  have e: "e\<lparr>writable := False\<rparr> = \<lparr>valid = True, writable = False, pfn = f, private_tag = 3\<rparr>"
    using assms(5-7) by (cases e) simp
  have "mapcounts (switch_process cfg child fresh p s) f = 2"
    using assms(8,9) by (simp add: fork_mapcounts [OF assms(1)])
  moreover have "pte_of cfg (switch_process cfg child fresh p s) (current s) v
      = Some \<lparr>valid = True, writable = False, pfn = f, private_tag = 3\<rparr>"
    using assms(5,6) e by (simp add: fork_parent_pte [OF assms(1-4)])
  moreover have "pte_of cfg (switch_process cfg child fresh p s) child v
      = Some \<lparr>valid = True, writable = False, pfn = f, private_tag = 3\<rparr>"
    using assms(6) e by (simp add: fork_child_pte [OF assms(1,3,4,5)])
  moreover have "current (switch_process cfg child fresh p s) = child
      \<and> processes (switch_process cfg child fresh p s) = processes s @ [current s]"
    by (simp add: switch_process_fork [OF assms(1)] split: prod.splits)
  ultimately show ?thesis by simp
qed

text \<open>In \<open>two_pages_vm\<close> page 0 is the only page on frame 0, writable with tag 3.\<close>

lemma fork_shares_sole_cow_page_example:
  "find (\<lambda>a. pid (procs two_pages_vm a) = 1) (processes two_pages_vm) = None
   \<and> 1 \<noteq> current two_pages_vm
   \<and> (0::nat) < NR_PTES_PER_PAGE example_config * NR_PTES_PER_PAGE example_config
   \<and> pte_of example_config two_pages_vm (current two_pages_vm) 0
       = Some \<lparr>valid = True, writable = True, pfn = 0, private_tag = 3\<rparr>
   \<and> mapcounts two_pages_vm 0 = 1
   \<and> pt_refs example_config (pagetable (procs two_pages_vm (current two_pages_vm))) 0 = 1
   \<and> mapcounts (switch_process example_config 1 zero_dirs 1 two_pages_vm) 0 = 2
   \<and> pte_of example_config (switch_process example_config 1 zero_dirs 1 two_pages_vm) 0 0
       = Some \<lparr>valid = True, writable = False, pfn = 0, private_tag = 3\<rparr>
   \<and> pte_of example_config (switch_process example_config 1 zero_dirs 1 two_pages_vm) 1 0
       = Some \<lparr>valid = True, writable = False, pfn = 0, private_tag = 3\<rparr>"
proof -
  have h1: "find (\<lambda>a. pid (procs two_pages_vm a) = 1) (processes two_pages_vm) = None"
    by code_simp
  have h2: "1 \<noteq> current two_pages_vm"
    by code_simp
  have h3: "(0::nat) < NR_PTES_PER_PAGE example_config * NR_PTES_PER_PAGE example_config"
    by code_simp
  have h4: "pte_of example_config two_pages_vm (current two_pages_vm) 0
       = Some \<lparr>valid = True, writable = True, pfn = 0, private_tag = 3\<rparr>"
    by code_simp
  have h8: "mapcounts two_pages_vm 0 = 1"
    by code_simp
  have h9: "pt_refs example_config (pagetable (procs two_pages_vm (current two_pages_vm))) 0 = 1"
    by code_simp
  have c: "current two_pages_vm = 0"
    by code_simp
  have "mapcounts (switch_process example_config 1 zero_dirs 1 two_pages_vm) 0 = 2
       \<and> pte_of example_config (switch_process example_config 1 zero_dirs 1 two_pages_vm)
            (current two_pages_vm) 0
           = Some \<lparr>valid = True, writable = False, pfn = 0, private_tag = 3\<rparr>
       \<and> pte_of example_config (switch_process example_config 1 zero_dirs 1 two_pages_vm) 1 0
           = Some \<lparr>valid = True, writable = False, pfn = 0, private_tag = 3\<rparr>"
    using fork_shares_sole_cow_page [OF h1 h2 h3 h4 _ _ _ h8 h9, of zero_dirs] by simp
  then show ?thesis
    using h1 h2 h3 h4 h8 h9 c by simp
qed

text \<open>
  C4. When the current process has a valid entry with tag 3 for page \<open>v\<close> on frame
  \<open>f\<close> and the count of \<open>f\<close> is 1, a fork is to leave the count of \<open>f\<close> at 2, with
  the entry read-only in parent and child. The fork loop does so wherever the count
  of \<open>f\<close> is the number of valid entries on \<open>f\<close>, but the fault handler leaves states
  where it is not. The example run ends in \<open>stale_state\<close>: pages 0 and 1 of the
  current process are both valid on frame 0 while the count of frame 0 is 1, the
  handler having set the valid bit of page 1 without counting it. Page 0 is
  writable with tag 3 and the queue is empty; the fork to pid 1 takes the count of
  frame 0 to 3, not 2.
\<close>

theorem fork_after_uncounted_validation:
  "revalidated_vm = Some stale_state
   \<and> processes stale_state = []
   \<and> pte_of example_config stale_state (current stale_state) 0
       = Some \<lparr>valid = True, writable = True, pfn = 0, private_tag = 3\<rparr>
   \<and> mapcounts stale_state 0 = 1
   \<and> mapcounts (switch_process example_config 1 zero_dirs 1 stale_state) 0 = 3"
proof -
  have "processes stale_state = []
   \<and> pte_of example_config stale_state (current stale_state) 0
       = Some \<lparr>valid = True, writable = True, pfn = 0, private_tag = 3\<rparr>
   \<and> mapcounts stale_state 0 = 1
   \<and> mapcounts (switch_process example_config 1 zero_dirs 1 stale_state) 0 = 3"
    by code_simp
  with revalidated_vm_eq show ?thesis
    by blast
qed

section \<open>Reference counts and page-table entries\<close>

text \<open>
  C2. The count of a frame is to equal the number of valid entries that name it,
  over the current process and the queue, after every operation. The example run
  (allocate pages 0 and 1, deallocate page 1, fault on page 1) ends in
  \<open>stale_state\<close>, where two valid entries name frame 0 and its count is 1: the
  handler found the cleared entry of page 1 naming frame 0 with count 1, and set
  its valid bit without counting it.
\<close>

theorem mapcounts_below_references:
  "revalidated_vm = Some stale_state
   \<and> total_refs example_config stale_state 0 = 2
   \<and> mapcounts stale_state 0 = 1"
proof -
  have "total_refs example_config stale_state 0 = 2"
    by code_simp
  moreover have "mapcounts stale_state 0 = 1"
    by code_simp
  ultimately show ?thesis
    by (simp add: revalidated_vm_eq)
qed

end
